theory Spec2Isabelle
  imports Complex_Main
begin

section \<open>The calculator of \<open>app.py\<close>: data\<close>

text \<open>
  Exceptions of the evaluator are values. \<open>ValueError\<close> carries its message, since the
  source raises it with two different messages (``Expression too long'' and
  ``Unsupported or unsafe expression''); the other exceptions come from Python's parser
  and arithmetic. In the words of the specification, the first message is \<open>TooLong\<close>,
  the second \<open>UnsupportedSyntax\<close>, \<open>SyntaxError\<close> is \<open>ParseError\<close> and
  \<open>ZeroDivisionError\<close> is \<open>DivisionByZero\<close>; the source has no exception of its own
  for a domain error.
\<close>

datatype error =
    ValueError string
  | SyntaxError
  | ZeroDivisionError
  | OverflowError
  | TypeError

text \<open>
  The syntax tree of Python's \<open>ast\<close> module, as far as \<open>_eval_node\<close> tells its nodes
  apart, in the form that the parser of Python 3.8 and later builds: every literal is a
  \<open>Constant\<close> node. (The older parsers, for which the source keeps its test on
  \<open>ast.Num\<close>, build \<open>Num\<close> and \<open>NameConstant\<close> nodes instead.) A constant carries a
  Python value: an integer, a float (type \<open>'f\<close>), a complex number (type \<open>'c\<close>), a
  boolean, a string, bytes, \<open>None\<close> or \<open>...\<close>. The operator classes are all those of
  \<open>ast.BinOp\<close> and \<open>ast.UnaryOp\<close>. Names, attribute access and calls have a
  constructor each, and \<open>Other\<close> stands for the remaining node classes (comparisons,
  boolean operators, collection displays, lambdas and so on), by class name.
\<close>

datatype ('f, 'c) pyconst =
    CInt int
  | CFloat 'f
  | CComplex 'c
  | CBool bool
  | CStr string
  | CBytes string
  | CNone
  | CEllipsis

datatype operator =
  Add | Sub | Mult | Div | FloorDiv | Mod | Pow | MatMult | LShift | RShift | BitOr | BitXor | BitAnd

datatype unaryop = UAdd | USub | Not | Invert

datatype ('f, 'c) node =
    BinOp "('f, 'c) node" operator "('f, 'c) node"
  | UnaryOp unaryop "('f, 'c) node"
  | Constant "('f, 'c) pyconst"
  | Name string
  | Attribute "('f, 'c) node" string
  | Call "('f, 'c) node" "('f, 'c) node list"
  | Other string

text \<open>The values the evaluator can return: Python's \<open>bool\<close>, \<open>int\<close>, \<open>float\<close>, \<open>complex\<close>.\<close>

datatype ('f, 'c) pyval =
    VBool bool
  | VInt int
  | VFloat 'f
  | VComplex 'c

text \<open>
  The interpreter the program runs on. The source calls \<open>ast.parse\<close> and the functions of
  \<open>operator\<close>; what these do on C doubles, and what the parser returns, is not code of
  \<open>app.py\<close> and is taken as a parameter, one field per primitive:
  \<^item> \<open>int_to_float\<close>: conversion of an \<open>int\<close> to a double, \<open>None\<close> when the integer is
    too large (Python raises \<open>OverflowError\<close>);
  \<^item> \<open>f_is_zero\<close>, \<open>f_is_nan\<close>, \<open>f_is_inf\<close>, \<open>f_is_neg\<close> (\<open>x < 0.0\<close>),
    \<open>f_is_whole\<close> (\<open>x == floor(x)\<close>): the tests on doubles that decide a branch;
  \<^item> \<open>f_arith\<close>: double addition, subtraction, multiplication, and division,
    floor division and remainder by a non-zero divisor;
  \<^item> \<open>int_true_div\<close>: \<open>a / b\<close> on integers with \<open>b\<close> non-zero, \<open>None\<close> when the
    quotient is too large for a double;
  \<^item> \<open>f_pow_special\<close>: the value of \<open>x ** y\<close> in the cases that \<open>float_pow\<close> answers
    without calling the C library; \<open>f_pow_libm\<close>: the call of C's \<open>pow\<close>, with an error
    when it sets \<open>errno\<close>;
  \<^item> \<open>to_complex\<close>, \<open>c_is_zero\<close>, \<open>c_arith\<close> (addition, subtraction,
    multiplication, division by non-zero), \<open>c_neg\<close>, \<open>c_pow\<close>: complex numbers;
  \<^item> \<open>f_neg\<close>: negation of a double; \<open>f_repr\<close>, \<open>c_repr\<close>: \<open>str\<close> of a float
    and of a complex number;
  \<^item> \<open>has_Num\<close>: \<open>hasattr(ast, "Num")\<close>, true up to Python 3.13;
  \<^item> \<open>max_str_digits\<close>: \<open>sys.get_int_max_str_digits()\<close>, the limit on the number of
    digits of an integer that \<open>str\<close> converts (4300 by default, otherwise 0 or at
    least 640; 0 means no limit, which is also how interpreters older than the limit
    behave);
  \<^item> \<open>ast_parse\<close>: \<open>ast.parse(text, mode="eval").body\<close>, or the exception it raises.
\<close>

record ('f, 'c) python =
  int_to_float :: "int \<Rightarrow> 'f option"
  f_is_zero :: "'f \<Rightarrow> bool"
  f_is_nan :: "'f \<Rightarrow> bool"
  f_is_inf :: "'f \<Rightarrow> bool"
  f_is_neg :: "'f \<Rightarrow> bool"
  f_is_whole :: "'f \<Rightarrow> bool"
  f_arith :: "operator \<Rightarrow> 'f \<Rightarrow> 'f \<Rightarrow> 'f"
  f_neg :: "'f \<Rightarrow> 'f"
  int_true_div :: "int \<Rightarrow> int \<Rightarrow> 'f option"
  f_pow_special :: "'f \<Rightarrow> 'f \<Rightarrow> 'f"
  f_pow_libm :: "'f \<Rightarrow> 'f \<Rightarrow> error + 'f"
  to_complex :: "'f \<Rightarrow> 'c"
  c_is_zero :: "'c \<Rightarrow> bool"
  c_arith :: "operator \<Rightarrow> 'c \<Rightarrow> 'c \<Rightarrow> 'c"
  c_neg :: "'c \<Rightarrow> 'c"
  c_pow :: "'c \<Rightarrow> 'c \<Rightarrow> error + 'c"
  f_repr :: "'f \<Rightarrow> string"
  c_repr :: "'c \<Rightarrow> string"
  has_Num :: bool
  max_str_digits :: nat
  ast_parse :: "string \<Rightarrow> error + ('f, 'c) node"

section \<open>Python's arithmetic on \<open>bool\<close>, \<open>int\<close>, \<open>float\<close> and \<open>complex\<close>\<close>

text \<open>
  A binary operator first brings its operands to a common type: complex if one of them
  is complex, else float if one of them is a float, else integer (\<open>bool\<close> is a subclass
  of \<open>int\<close>: \<open>False\<close> is 0 and \<open>True\<close> is 1). Converting an integer to a double can
  overflow.
\<close>

datatype ('f, 'c) operands = Ints int int | Floats 'f 'f | Complexes 'c 'c

definition bool_int :: "bool \<Rightarrow> int" where
  "bool_int b = (if b then 1 else 0)"

definition float_of_int :: "('f, 'c) python \<Rightarrow> int \<Rightarrow> error + 'f" where
  "float_of_int P n = (case int_to_float P n of None \<Rightarrow> Inl OverflowError | Some x \<Rightarrow> Inr x)"

fun as_float :: "('f, 'c) python \<Rightarrow> ('f, 'c) pyval \<Rightarrow> error + 'f" where
  "as_float P (VBool b) = float_of_int P (bool_int b)"
| "as_float P (VInt n) = float_of_int P n"
| "as_float P (VFloat x) = Inr x"
| "as_float P (VComplex z) = Inl TypeError"

fun as_complex :: "('f, 'c) python \<Rightarrow> ('f, 'c) pyval \<Rightarrow> error + 'c" where
  "as_complex P (VComplex z) = Inr z"
| "as_complex P v =
     (case as_float P v of Inl e \<Rightarrow> Inl e | Inr x \<Rightarrow> Inr (to_complex P x))"

fun is_complex :: "('f, 'c) pyval \<Rightarrow> bool" where
  "is_complex (VComplex z) = True"
| "is_complex v = False"

definition both_floats ::
  "('f, 'c) python \<Rightarrow> ('f, 'c) pyval \<Rightarrow> ('f, 'c) pyval \<Rightarrow> error + ('f, 'c) operands" where
  "both_floats P a b =
     (case as_float P a of Inl e \<Rightarrow> Inl e
      | Inr x \<Rightarrow> (case as_float P b of Inl e \<Rightarrow> Inl e | Inr y \<Rightarrow> Inr (Floats x y)))"

definition both_complex ::
  "('f, 'c) python \<Rightarrow> ('f, 'c) pyval \<Rightarrow> ('f, 'c) pyval \<Rightarrow> error + ('f, 'c) operands" where
  "both_complex P a b =
     (case as_complex P a of Inl e \<Rightarrow> Inl e
      | Inr x \<Rightarrow> (case as_complex P b of Inl e \<Rightarrow> Inl e | Inr y \<Rightarrow> Inr (Complexes x y)))"

fun coerce ::
  "('f, 'c) python \<Rightarrow> ('f, 'c) pyval \<Rightarrow> ('f, 'c) pyval \<Rightarrow> error + ('f, 'c) operands" where
  "coerce P (VComplex z) b = both_complex P (VComplex z) b"
| "coerce P a (VComplex z) = both_complex P a (VComplex z)"
| "coerce P (VFloat x) b = both_floats P (VFloat x) b"
| "coerce P a (VFloat y) = both_floats P a (VFloat y)"
| "coerce P (VBool a) (VBool b) = Inr (Ints (bool_int a) (bool_int b))"
| "coerce P (VBool a) (VInt n) = Inr (Ints (bool_int a) n)"
| "coerce P (VInt m) (VBool b) = Inr (Ints m (bool_int b))"
| "coerce P (VInt m) (VInt n) = Inr (Ints m n)"

text \<open>
  \<open>operator.add\<close>, \<open>operator.sub\<close> and \<open>operator.mul\<close>: exact on integers, the
  double or complex operation otherwise. None of them raises once the operands are
  converted.
\<close>

definition arith ::
  "('f, 'c) python \<Rightarrow> operator \<Rightarrow> (int \<Rightarrow> int \<Rightarrow> int) \<Rightarrow>
     ('f, 'c) pyval \<Rightarrow> ('f, 'c) pyval \<Rightarrow> error + ('f, 'c) pyval" where
  "arith P op f a b =
     (case coerce P a b of
        Inl e \<Rightarrow> Inl e
      | Inr (Ints x y) \<Rightarrow> Inr (VInt (f x y))
      | Inr (Floats x y) \<Rightarrow> Inr (VFloat (f_arith P op x y))
      | Inr (Complexes x y) \<Rightarrow> Inr (VComplex (c_arith P op x y)))"

definition operator_add ::
  "('f, 'c) python \<Rightarrow> ('f, 'c) pyval \<Rightarrow> ('f, 'c) pyval \<Rightarrow> error + ('f, 'c) pyval" where
  "operator_add P = arith P Add (\<lambda>x y. x + y)"

definition operator_sub ::
  "('f, 'c) python \<Rightarrow> ('f, 'c) pyval \<Rightarrow> ('f, 'c) pyval \<Rightarrow> error + ('f, 'c) pyval" where
  "operator_sub P = arith P Sub (\<lambda>x y. x - y)"

definition operator_mul ::
  "('f, 'c) python \<Rightarrow> ('f, 'c) pyval \<Rightarrow> ('f, 'c) pyval \<Rightarrow> error + ('f, 'c) pyval" where
  "operator_mul P = arith P Mult (\<lambda>x y. x * y)"

text \<open>
  \<open>operator.truediv\<close>: every numeric type tests the converted divisor against zero and
  raises \<open>ZeroDivisionError\<close>; the quotient of two integers is a float and can be too
  large for one.
\<close>

definition operator_truediv ::
  "('f, 'c) python \<Rightarrow> ('f, 'c) pyval \<Rightarrow> ('f, 'c) pyval \<Rightarrow> error + ('f, 'c) pyval" where
  "operator_truediv P a b =
     (case coerce P a b of
        Inl e \<Rightarrow> Inl e
      | Inr (Ints x y) \<Rightarrow>
          (if y = 0 then Inl ZeroDivisionError
           else (case int_true_div P x y of None \<Rightarrow> Inl OverflowError | Some q \<Rightarrow> Inr (VFloat q)))
      | Inr (Floats x y) \<Rightarrow>
          (if f_is_zero P y then Inl ZeroDivisionError else Inr (VFloat (f_arith P Div x y)))
      | Inr (Complexes x y) \<Rightarrow>
          (if c_is_zero P y then Inl ZeroDivisionError else Inr (VComplex (c_arith P Div x y))))"

text \<open>
  \<open>operator.floordiv\<close> and \<open>operator.mod\<close>: \<open>complex\<close> has neither, so a complex
  operand is a \<open>TypeError\<close> before anything is converted. On integers Python rounds the
  quotient towards minus infinity and the remainder takes the sign of the divisor, which
  is what \<open>div\<close> and \<open>mod\<close> on \<open>int\<close> do in HOL; division by zero is written out.
\<close>

definition floor_arith ::
  "('f, 'c) python \<Rightarrow> operator \<Rightarrow> (int \<Rightarrow> int \<Rightarrow> int) \<Rightarrow>
     ('f, 'c) pyval \<Rightarrow> ('f, 'c) pyval \<Rightarrow> error + ('f, 'c) pyval" where
  "floor_arith P op f a b =
     (if is_complex a \<or> is_complex b then Inl TypeError
      else (case coerce P a b of
        Inl e \<Rightarrow> Inl e
      | Inr (Ints x y) \<Rightarrow> (if y = 0 then Inl ZeroDivisionError else Inr (VInt (f x y)))
      | Inr (Floats x y) \<Rightarrow>
          (if f_is_zero P y then Inl ZeroDivisionError else Inr (VFloat (f_arith P op x y)))
      | Inr (Complexes x y) \<Rightarrow> Inl TypeError))"

definition operator_floordiv ::
  "('f, 'c) python \<Rightarrow> ('f, 'c) pyval \<Rightarrow> ('f, 'c) pyval \<Rightarrow> error + ('f, 'c) pyval" where
  "operator_floordiv P = floor_arith P FloorDiv (\<lambda>x y. x div y)"

definition operator_mod ::
  "('f, 'c) python \<Rightarrow> ('f, 'c) pyval \<Rightarrow> ('f, 'c) pyval \<Rightarrow> error + ('f, 'c) pyval" where
  "operator_mod P = floor_arith P Mod (\<lambda>x y. x mod y)"

text \<open>
  \<open>operator.pow\<close>. On doubles (\<open>float_pow\<close> of CPython): the cases with a zero
  exponent, a NaN or an infinity return a value; a zero base raises
  \<open>ZeroDivisionError\<close> for a negative exponent; a negative base with an exponent that
  is not a whole number is handed to the complex power; everything else is C's \<open>pow\<close>,
  whose \<open>errno\<close> becomes an exception. On integers a negative exponent converts both
  operands to doubles, a non-negative one is exact.
\<close>

definition complex_pow :: "('f, 'c) python \<Rightarrow> 'c \<Rightarrow> 'c \<Rightarrow> error + ('f, 'c) pyval" where
  "complex_pow P x y = (case c_pow P x y of Inl e \<Rightarrow> Inl e | Inr z \<Rightarrow> Inr (VComplex z))"

definition float_pow :: "('f, 'c) python \<Rightarrow> 'f \<Rightarrow> 'f \<Rightarrow> error + ('f, 'c) pyval" where
  "float_pow P iv iw =
     (if f_is_zero P iw \<or> f_is_nan P iv \<or> f_is_nan P iw \<or> f_is_inf P iw \<or> f_is_inf P iv
      then Inr (VFloat (f_pow_special P iv iw))
      else if f_is_zero P iv then
        (if f_is_neg P iw then Inl ZeroDivisionError else Inr (VFloat (f_pow_special P iv iw)))
      else if f_is_neg P iv \<and> \<not> f_is_whole P iw then
        complex_pow P (to_complex P iv) (to_complex P iw)
      else (case f_pow_libm P iv iw of Inl e \<Rightarrow> Inl e | Inr x \<Rightarrow> Inr (VFloat x)))"

definition operator_pow ::
  "('f, 'c) python \<Rightarrow> ('f, 'c) pyval \<Rightarrow> ('f, 'c) pyval \<Rightarrow> error + ('f, 'c) pyval" where
  "operator_pow P a b =
     (case coerce P a b of
        Inl e \<Rightarrow> Inl e
      | Inr (Ints x y) \<Rightarrow>
          (if y < 0 then
             (case float_of_int P x of Inl e \<Rightarrow> Inl e
              | Inr iv \<Rightarrow> (case float_of_int P y of Inl e \<Rightarrow> Inl e | Inr iw \<Rightarrow> float_pow P iv iw))
           else Inr (VInt (x ^ nat y)))
      | Inr (Floats x y) \<Rightarrow> float_pow P x y
      | Inr (Complexes x y) \<Rightarrow> complex_pow P x y)"

text \<open>
  \<open>operator.pos\<close> and \<open>operator.neg\<close>: \<open>bool\<close> inherits both from \<open>int\<close>, so the
  result on a boolean is an integer.
\<close>

fun operator_pos :: "('f, 'c) python \<Rightarrow> ('f, 'c) pyval \<Rightarrow> error + ('f, 'c) pyval" where
  "operator_pos P (VBool b) = Inr (VInt (bool_int b))"
| "operator_pos P v = Inr v"

fun operator_neg :: "('f, 'c) python \<Rightarrow> ('f, 'c) pyval \<Rightarrow> error + ('f, 'c) pyval" where
  "operator_neg P (VBool b) = Inr (VInt (- bool_int b))"
| "operator_neg P (VInt n) = Inr (VInt (- n))"
| "operator_neg P (VFloat x) = Inr (VFloat (f_neg P x))"
| "operator_neg P (VComplex z) = Inr (VComplex (c_neg P z))"

section \<open>The safe evaluator\<close>

text \<open>
  The two module-level dictionaries, keyed by the class of the operator node. Isabelle
  names cannot start with an underscore: \<open>ops\<close> is \<open>_ops\<close>, \<open>unary_ops\<close> is
  \<open>_unary_ops\<close>, \<open>eval_node\<close> is \<open>_eval_node\<close>.
\<close>

definition ops ::
  "('f, 'c) python \<Rightarrow> operator \<rightharpoonup> (('f, 'c) pyval \<Rightarrow> ('f, 'c) pyval \<Rightarrow> error + ('f, 'c) pyval)" where
  "ops P = [Add \<mapsto> operator_add P, Sub \<mapsto> operator_sub P, Mult \<mapsto> operator_mul P,
            Div \<mapsto> operator_truediv P, FloorDiv \<mapsto> operator_floordiv P,
            Mod \<mapsto> operator_mod P, Pow \<mapsto> operator_pow P]"

definition unary_ops ::
  "('f, 'c) python \<Rightarrow> unaryop \<rightharpoonup> (('f, 'c) pyval \<Rightarrow> error + ('f, 'c) pyval)" where
  "unary_ops P = [UAdd \<mapsto> operator_pos P, USub \<mapsto> operator_neg P]"

definition unsupported :: error where
  "unsupported = ValueError ''Unsupported or unsafe expression''"

text \<open>
  The two tests on the value of a constant: \<open>isinstance(node.value, (int, float))\<close>,
  which also holds of a boolean since \<open>bool\<close> is a subclass of \<open>int\<close>; and
  \<open>isinstance(node, ast.Num)\<close>, which for a \<open>Constant\<close> node holds when the value is
  an \<open>int\<close>, a \<open>float\<close> or a \<open>complex\<close> and not a \<open>bool\<close>.
\<close>

fun isinstance_int_float :: "('f, 'c) pyconst \<Rightarrow> bool" where
  "isinstance_int_float (CInt n) = True"
| "isinstance_int_float (CFloat x) = True"
| "isinstance_int_float (CBool b) = True"
| "isinstance_int_float c = False"

fun isinstance_Num :: "('f, 'c) pyconst \<Rightarrow> bool" where
  "isinstance_Num (CInt n) = True"
| "isinstance_Num (CFloat x) = True"
| "isinstance_Num (CComplex z) = True"
| "isinstance_Num c = False"

fun node_value :: "('f, 'c) pyconst \<Rightarrow> error + ('f, 'c) pyval" where
  "node_value (CInt n) = Inr (VInt n)"
| "node_value (CFloat x) = Inr (VFloat x)"
| "node_value (CComplex z) = Inr (VComplex z)"
| "node_value (CBool b) = Inr (VBool b)"
| "node_value c = Inl unsupported"

text \<open>
  \<open>_eval_node\<close>: the four tests in the order of the source, then the \<open>raise\<close>. The
  left operand is evaluated before the right one, and an exception of either leaves the
  operator unapplied. Integers are unbounded, as in Python; the interpreter's recursion
  limit is not modelled (a text of at most 100 characters nests fewer than 100 nodes).
\<close>

fun eval_node :: "('f, 'c) python \<Rightarrow> ('f, 'c) node \<Rightarrow> error + ('f, 'c) pyval" where
  "eval_node P (BinOp left op right) =
     (case ops P op of
        Some f \<Rightarrow>
          (case eval_node P left of
             Inl e \<Rightarrow> Inl e
           | Inr a \<Rightarrow> (case eval_node P right of Inl e \<Rightarrow> Inl e | Inr b \<Rightarrow> f a b))
      | None \<Rightarrow> Inl unsupported)"
| "eval_node P (UnaryOp op operand) =
     (case unary_ops P op of
        Some f \<Rightarrow> (case eval_node P operand of Inl e \<Rightarrow> Inl e | Inr a \<Rightarrow> f a)
      | None \<Rightarrow> Inl unsupported)"
| "eval_node P (Constant c) =
     (if isinstance_int_float c then node_value c
      else if has_Num P \<and> isinstance_Num c then node_value c
      else Inl unsupported)"
| "eval_node P n = Inl unsupported"

text \<open>
  \<open>str.strip()\<close> removes the white space of Python at both ends. A text is a list of
  characters, one per code point, for the code points below 256; the white space among
  them is listed by code.
\<close>

definition isspace :: "char \<Rightarrow> bool" where
  "isspace c = (of_char c \<in> {9, 10, 11, 12, 13, 28, 29, 30, 31, 32, 133, 160 :: nat})"

definition strip :: "string \<Rightarrow> string" where
  "strip s = rev (dropWhile isspace (rev (dropWhile isspace s)))"

definition too_long :: error where
  "too_long = ValueError ''Expression too long''"

definition safe_eval :: "('f, 'c) python \<Rightarrow> string \<Rightarrow> error + ('f, 'c) pyval" where
  "safe_eval P expr =
     (let expr = strip expr in
      if length expr > 100 then Inl too_long
      else (case ast_parse P expr of Inl e \<Rightarrow> Inl e | Inr body \<Rightarrow> eval_node P body))"

section \<open>The two request handlers\<close>

text \<open>
  The table \<open>calculations\<close> is a list of rows, oldest first; the storage assigns
  the next free id, and \<open>created_at\<close> is the time of the request. \<open>str(result)\<close> is the
  decimal numeral of an integer, unless it has more digits than the interpreter's limit
  (then \<open>str\<close> raises \<open>ValueError\<close>), and \<open>True\<close> or \<open>False\<close> for a boolean. The
  storage is taken to be reliable: adding a row and committing do not fail. A flashed
  message and the JSON error body keep the exception rather than its text.
\<close>

record calculation =
  cid :: nat
  expression :: string
  result :: string
  created_at :: nat

datatype flash = EnterExpression | ErrorFlash error

record app_state =
  rows :: "calculation list"
  flashes :: "flash list"

datatype response =
    Redirect string
  | JsonCalc calculation
  | JsonError400 "error option"

function digits :: "nat \<Rightarrow> string" where
  "digits n =
     (if n < 10 then [''0123456789'' ! n] else digits (n div 10) @ [''0123456789'' ! (n mod 10)])"
  by pat_completeness auto
termination
  by (relation "measure id") auto

declare digits.simps [simp del]

definition str_int :: "int \<Rightarrow> string" where
  "str_int n = (if n < 0 then CHR ''-'' # digits (nat (- n)) else digits (nat n))"

definition str_limit_error :: error where
  "str_limit_error = ValueError ''Exceeds the limit for integer string conversion''"

fun py_str :: "('f, 'c) python \<Rightarrow> ('f, 'c) pyval \<Rightarrow> error + string" where
  "py_str P (VBool b) = Inr (if b then ''True'' else ''False'')"
| "py_str P (VInt n) =
     (if 0 < max_str_digits P \<and> max_str_digits P < length (digits (nat \<bar>n\<bar>))
      then Inl str_limit_error else Inr (str_int n))"
| "py_str P (VFloat x) = Inr (f_repr P x)"
| "py_str P (VComplex z) = Inr (c_repr P z)"

definition next_id :: "calculation list \<Rightarrow> nat" where
  "next_id rs = Suc (fold max (map cid rs) 0)"

definition add_commit :: "nat \<Rightarrow> string \<Rightarrow> string \<Rightarrow> app_state \<Rightarrow> calculation \<times> app_state" where
  "add_commit now e r st =
     (let calc = \<lparr>cid = next_id (rows st), expression = e, result = r, created_at = now\<rparr>
      in (calc, st\<lparr>rows := rows st @ [calc]\<rparr>))"

definition do_flash :: "flash \<Rightarrow> app_state \<Rightarrow> app_state" where
  "do_flash m st = st\<lparr>flashes := flashes st @ [m]\<rparr>"

text \<open>
  The body of the \<open>try\<close> of both handlers: evaluate, build the row with
  \<open>str(result)\<close>, add it and commit. Any exception leaves the \<open>try\<close> before the row is
  added.
\<close>

definition try_store ::
  "('f, 'c) python \<Rightarrow> nat \<Rightarrow> string \<Rightarrow> app_state \<Rightarrow> error + (calculation \<times> app_state)" where
  "try_store P now e st =
     (case safe_eval P e of
        Inl err \<Rightarrow> Inl err
      | Inr v \<Rightarrow> (case py_str P v of Inl err \<Rightarrow> Inl err | Inr r \<Rightarrow> Inr (add_commit now e r st)))"

definition get_param :: "string option \<Rightarrow> string" where
  "get_param v = strip (case v of None \<Rightarrow> [] | Some s \<Rightarrow> s)"

definition calculate ::
  "('f, 'c) python \<Rightarrow> nat \<Rightarrow> string option \<Rightarrow> app_state \<Rightarrow> response \<times> app_state" where
  "calculate P now form st =
     (let e = get_param form in
      if e = [] then (Redirect ''home'', do_flash EnterExpression st)
      else (case try_store P now e st of
              Inr (calc, st') \<Rightarrow> (Redirect ''history'', st')
            | Inl err \<Rightarrow> (Redirect ''home'', do_flash (ErrorFlash err) st)))"

definition api_calc ::
  "('f, 'c) python \<Rightarrow> nat \<Rightarrow> string option \<Rightarrow> app_state \<Rightarrow> response \<times> app_state" where
  "api_calc P now args st =
     (let e = get_param args in
      if e = [] then (JsonError400 None, st)
      else (case try_store P now e st of
              Inr (calc, st') \<Rightarrow> (JsonCalc calc, st')
            | Inl err \<Rightarrow> (JsonError400 (Some err), st)))"

section \<open>An interpreter to run the model on\<close>

text \<open>
  The theorems below hold for every interpreter. To run the model on a concrete text, the
  parameters are instantiated: \<open>example_parse\<close> gives the trees that Python's parser
  (3.8 or later) returns on the texts named in this development and answers every other
  text, the empty one included, with a syntax error; \<open>ideal_python\<close> computes on real
  and complex numbers without rounding, converts the integers that round to a finite
  double (those below \<open>2 ^ 1024 - 2 ^ 970\<close> in absolute value), has no NaN and no
  infinity, does not render floats and complex numbers as text, and keeps the default
  limit of 4300 digits. It agrees with binary64 arithmetic whenever operands and results
  are exactly representable.
\<close>

definition example_parse :: "string \<Rightarrow> error + (real, complex) node" where
  "example_parse s =
     (case map_of
        [(''2 + 3'', BinOp (Constant (CInt 2)) Add (Constant (CInt 3))),
         (''2 + 3 * 4'',
            BinOp (Constant (CInt 2)) Add (BinOp (Constant (CInt 3)) Mult (Constant (CInt 4)))),
         (''(2 + 3) * 4'',
            BinOp (BinOp (Constant (CInt 2)) Add (Constant (CInt 3))) Mult (Constant (CInt 4))),
         (''2 ** 10'', BinOp (Constant (CInt 2)) Pow (Constant (CInt 10))),
         (''7 // 2'', BinOp (Constant (CInt 7)) FloorDiv (Constant (CInt 2))),
         (''7 % 2'', BinOp (Constant (CInt 7)) Mod (Constant (CInt 2))),
         (''1 / 0'', BinOp (Constant (CInt 1)) Div (Constant (CInt 0))),
         (''a / 0'', BinOp (Name ''a'') Div (Constant (CInt 0))),
         (''a + 1'', BinOp (Name ''a'') Add (Constant (CInt 1))),
         (''__import__('os').system('ls')'',
            Call (Attribute (Call (Name ''__import__'') [Constant (CStr ''os'')]) ''system'')
              [Constant (CStr ''ls'')]),
         (''True'', Constant (CBool True)),
         (''(-8) ** 0.5'',
            BinOp (UnaryOp USub (Constant (CInt 8))) Pow (Constant (CFloat (1 / 2)))),
         (''10 ** 400 / 0.0'',
            BinOp (BinOp (Constant (CInt 10)) Pow (Constant (CInt 400))) Div (Constant (CFloat 0))),
         (''10**4300'', BinOp (Constant (CInt 10)) Pow (Constant (CInt 4300)))] s of
        Some t \<Rightarrow> Inr t
      | None \<Rightarrow> Inl SyntaxError)"

definition ideal_arith :: "operator \<Rightarrow> 'a::field \<Rightarrow> 'a \<Rightarrow> 'a" where
  "ideal_arith op x y =
     (case op of Add \<Rightarrow> x + y | Sub \<Rightarrow> x - y | Mult \<Rightarrow> x * y | Div \<Rightarrow> x / y | _ \<Rightarrow> 0)"

definition ideal_f_arith :: "operator \<Rightarrow> real \<Rightarrow> real \<Rightarrow> real" where
  "ideal_f_arith op x y =
     (case op of
        FloorDiv \<Rightarrow> of_int \<lfloor>x / y\<rfloor>
      | Mod \<Rightarrow> x - of_int \<lfloor>x / y\<rfloor> * y
      | _ \<Rightarrow> ideal_arith op x y)"

definition ideal_pow :: "real \<Rightarrow> real \<Rightarrow> real" where
  "ideal_pow x y =
     (if 0 \<le> x then x powr y
      else if even \<lfloor>y\<rfloor> then (- x) powr y else - ((- x) powr y))"

definition ideal_c_pow :: "complex \<Rightarrow> complex \<Rightarrow> error + complex" where
  "ideal_c_pow x y =
     (if y = 0 then Inr 1
      else if x = 0 then (if Re y < 0 \<or> Im y \<noteq> 0 then Inl ZeroDivisionError else Inr 0)
      else Inr (exp (y * Complex (ln (cmod x)) (Arg x))))"

definition ideal_python :: "(real, complex) python" where
  "ideal_python =
     \<lparr>int_to_float = (\<lambda>n. if \<bar>n\<bar> < 2 ^ 1024 - 2 ^ 970 then Some (of_int n) else None),
      f_is_zero = (\<lambda>x. x = 0),
      f_is_nan = (\<lambda>x. False),
      f_is_inf = (\<lambda>x. False),
      f_is_neg = (\<lambda>x. x < 0),
      f_is_whole = (\<lambda>x. x = of_int \<lfloor>x\<rfloor>),
      f_arith = ideal_f_arith,
      f_neg = uminus,
      int_true_div = (\<lambda>a b. Some (of_int a / of_int b)),
      f_pow_special = (\<lambda>x y. if y = 0 then 1 else 0),
      f_pow_libm = (\<lambda>x y. Inr (ideal_pow x y)),
      to_complex = of_real,
      c_is_zero = (\<lambda>z. z = 0),
      c_arith = ideal_arith,
      c_neg = uminus,
      c_pow = ideal_c_pow,
      f_repr = (\<lambda>x. ''float''),
      c_repr = (\<lambda>z. ''complex''),
      has_Num = True,
      max_str_digits = 4300,
      ast_parse = example_parse\<rparr>"

section \<open>The arithmetic subset\<close>

text \<open>
  The trees of the specification's grammar: number literals (integer or float), unary
  plus and minus, and the seven binary operators. \<open>is_bool\<close> tells a boolean value
  from a number.
\<close>

fun well_formed :: "('f, 'c) node \<Rightarrow> bool" where
  "well_formed (BinOp l op r) =
     (op \<in> {Add, Sub, Mult, Div, FloorDiv, Mod, Pow} \<and> well_formed l \<and> well_formed r)"
| "well_formed (UnaryOp op e) = (op \<in> {UAdd, USub} \<and> well_formed e)"
| "well_formed (Constant (CInt n)) = True"
| "well_formed (Constant (CFloat x)) = True"
| "well_formed n = False"

text \<open>
  The trees that pass the tests of \<open>_eval_node\<close> at every node: operators of the two
  dictionaries over constants that pass one of the two tests on constants.
\<close>

fun accepted :: "('f, 'c) python \<Rightarrow> ('f, 'c) node \<Rightarrow> bool" where
  "accepted P (BinOp l op r) =
     (op \<in> {Add, Sub, Mult, Div, FloorDiv, Mod, Pow} \<and> accepted P l \<and> accepted P r)"
| "accepted P (UnaryOp op e) = (op \<in> {UAdd, USub} \<and> accepted P e)"
| "accepted P (Constant c) = (isinstance_int_float c \<or> has_Num P \<and> isinstance_Num c)"
| "accepted P n = False"

fun is_bool :: "('f, 'c) pyval \<Rightarrow> bool" where
  "is_bool (VBool b) = True"
| "is_bool v = False"

text \<open>
  A divisor that is zero: \<open>False\<close>, the integer 0, or a double that compares equal to
  \<open>0.0\<close>.
\<close>

fun zero_divisor :: "('f, 'c) python \<Rightarrow> ('f, 'c) pyval \<Rightarrow> bool" where
  "zero_divisor P (VBool b) = (\<not> b)"
| "zero_divisor P (VInt n) = (n = 0)"
| "zero_divisor P (VFloat y) = f_is_zero P y"
| "zero_divisor P (VComplex z) = False"

fun is_float :: "('f, 'c) pyval \<Rightarrow> bool" where
  "is_float (VFloat x) = True"
| "is_float v = False"

section \<open>What a request leaves in the table\<close>

text \<open>
  The rows expected after a request with parameter \<open>param\<close> at time \<open>now\<close>: the rows
  before, and one more row exactly when both the evaluation of the trimmed parameter and
  \<open>str\<close> of its result succeed.
\<close>

definition stored ::
  "('f, 'c) python \<Rightarrow> nat \<Rightarrow> string option \<Rightarrow> app_state \<Rightarrow> calculation list" where
  "stored P now param st =
     (case safe_eval P (get_param param) of
        Inl err \<Rightarrow> rows st
      | Inr v \<Rightarrow>
          (case py_str P v of
             Inl err \<Rightarrow> rows st
           | Inr r \<Rightarrow>
               rows st @ [\<lparr>cid = next_id (rows st), expression = get_param param, result = r,
                          created_at = now\<rparr>]))"

section \<open>The program with its state explicit\<close>

text \<open>
  What the statements of \<open>app.py\<close> can read or assign while the application runs: the
  two module-level dictionaries \<open>_ops\<close> and \<open>_unary_ops\<close>, which are ordinary mutable
  objects looked up at every call, and the database. \<open>module_loaded\<close> is the state after
  the module's top-level statements (lines 33 to 42) have run, over the table as the
  database holds it. The interpreter itself (parser, arithmetic, library modules) is not
  assigned by any statement of the program and stays a parameter.
\<close>

record ('f, 'c) world =
  g_ops :: "operator \<rightharpoonup> (('f, 'c) pyval \<Rightarrow> ('f, 'c) pyval \<Rightarrow> error + ('f, 'c) pyval)"
  g_unary_ops :: "unaryop \<rightharpoonup> (('f, 'c) pyval \<Rightarrow> error + ('f, 'c) pyval)"
  db :: app_state

definition module_loaded :: "('f, 'c) python \<Rightarrow> app_state \<Rightarrow> ('f, 'c) world" where
  "module_loaded P st = \<lparr>g_ops = ops P, g_unary_ops = unary_ops P, db = st\<rparr>"

text \<open>
  \<open>_eval_node\<close> and \<open>safe_eval\<close> once more, now reading the dictionaries from the
  current state and returning the state they leave: the state is passed from the lookup
  to the evaluation of the left operand, from there to the right operand, and out.
\<close>

fun eval_node_st ::
  "('f, 'c) python \<Rightarrow> ('f, 'c) world \<Rightarrow> ('f, 'c) node \<Rightarrow>
     (error + ('f, 'c) pyval) \<times> ('f, 'c) world" where
  "eval_node_st P w (BinOp left op right) =
     (case g_ops w op of
        Some f \<Rightarrow>
          (case eval_node_st P w left of
             (Inl e, w1) \<Rightarrow> (Inl e, w1)
           | (Inr a, w1) \<Rightarrow>
               (case eval_node_st P w1 right of
                  (Inl e, w2) \<Rightarrow> (Inl e, w2)
                | (Inr b, w2) \<Rightarrow> (f a b, w2)))
      | None \<Rightarrow> (Inl unsupported, w))"
| "eval_node_st P w (UnaryOp op operand) =
     (case g_unary_ops w op of
        Some f \<Rightarrow>
          (case eval_node_st P w operand of
             (Inl e, w1) \<Rightarrow> (Inl e, w1)
           | (Inr a, w1) \<Rightarrow> (f a, w1))
      | None \<Rightarrow> (Inl unsupported, w))"
| "eval_node_st P w (Constant c) =
     (if isinstance_int_float c then (node_value c, w)
      else if has_Num P \<and> isinstance_Num c then (node_value c, w)
      else (Inl unsupported, w))"
| "eval_node_st P w n = (Inl unsupported, w)"

definition safe_eval_st ::
  "('f, 'c) python \<Rightarrow> ('f, 'c) world \<Rightarrow> string \<Rightarrow> (error + ('f, 'c) pyval) \<times> ('f, 'c) world" where
  "safe_eval_st P w expr =
     (let expr = strip expr in
      if length expr > 100 then (Inl too_long, w)
      else (case ast_parse P expr of
              Inl e \<Rightarrow> (Inl e, w)
            | Inr body \<Rightarrow> eval_node_st P w body))"

text \<open>
  The handlers on the same state: the evaluator runs in the state of the request, and the
  row is added to the database of the state the evaluator leaves.
\<close>

definition try_store_st ::
  "('f, 'c) python \<Rightarrow> nat \<Rightarrow> string \<Rightarrow> ('f, 'c) world \<Rightarrow> (error + calculation) \<times> ('f, 'c) world" where
  "try_store_st P now e w =
     (case safe_eval_st P w e of
        (Inl err, w1) \<Rightarrow> (Inl err, w1)
      | (Inr v, w1) \<Rightarrow>
          (case py_str P v of
             Inl err \<Rightarrow> (Inl err, w1)
           | Inr r \<Rightarrow>
               (case add_commit now e r (db w1) of
                  (calc, st') \<Rightarrow> (Inr calc, w1\<lparr>db := st'\<rparr>))))"

definition calculate_st ::
  "('f, 'c) python \<Rightarrow> nat \<Rightarrow> string option \<Rightarrow> ('f, 'c) world \<Rightarrow> response \<times> ('f, 'c) world" where
  "calculate_st P now form w =
     (let e = get_param form in
      if e = [] then (Redirect ''home'', w\<lparr>db := do_flash EnterExpression (db w)\<rparr>)
      else (case try_store_st P now e w of
              (Inr calc, w1) \<Rightarrow> (Redirect ''history'', w1)
            | (Inl err, w1) \<Rightarrow> (Redirect ''home'', w1\<lparr>db := do_flash (ErrorFlash err) (db w1)\<rparr>)))"

definition api_calc_st ::
  "('f, 'c) python \<Rightarrow> nat \<Rightarrow> string option \<Rightarrow> ('f, 'c) world \<Rightarrow> response \<times> ('f, 'c) world" where
  "api_calc_st P now args w =
     (let e = get_param args in
      if e = [] then (JsonError400 None, w)
      else (case try_store_st P now e w of
              (Inr calc, w1) \<Rightarrow> (JsonCalc calc, w1)
            | (Inl err, w1) \<Rightarrow> (JsonError400 (Some err), w1)))"

text \<open>
  The requests of the application and a run of the server on a list of them. The pages
  \<open>/\<close> and \<open>/history\<close> assign nothing.
\<close>

datatype request =
    PostCalculate nat "string option"
  | GetApiCalc nat "string option"
  | GetHome
  | GetHistory

fun handle :: "('f, 'c) python \<Rightarrow> request \<Rightarrow> ('f, 'c) world \<Rightarrow> ('f, 'c) world" where
  "handle P (PostCalculate now form) w = snd (calculate_st P now form w)"
| "handle P (GetApiCalc now args) w = snd (api_calc_st P now args w)"
| "handle P GetHome w = w"
| "handle P GetHistory w = w"

fun serve :: "('f, 'c) python \<Rightarrow> request list \<Rightarrow> ('f, 'c) world \<Rightarrow> ('f, 'c) world" where
  "serve P [] w = w"
| "serve P (r # rs) w = serve P rs (handle P r w)"

text \<open>The dictionaries are as the module's top-level statements built them.\<close>

definition dictionaries_intact :: "('f, 'c) python \<Rightarrow> ('f, 'c) world \<Rightarrow> bool" where
  "dictionaries_intact P w \<longleftrightarrow> g_ops w = ops P \<and> g_unary_ops w = unary_ops P"

section \<open>Properties\<close>

subsection \<open>Auxiliary facts\<close>

lemma ops_simps:
  "ops P Add = Some (operator_add P)" "ops P Sub = Some (operator_sub P)"
  "ops P Mult = Some (operator_mul P)" "ops P Div = Some (operator_truediv P)"
  "ops P FloorDiv = Some (operator_floordiv P)" "ops P Mod = Some (operator_mod P)"
  "ops P Pow = Some (operator_pow P)"
  "ops P MatMult = None" "ops P LShift = None" "ops P RShift = None"
  "ops P BitOr = None" "ops P BitXor = None" "ops P BitAnd = None"
  by (simp_all add: ops_def)

lemma unary_ops_simps:
  "unary_ops P UAdd = Some (operator_pos P)" "unary_ops P USub = Some (operator_neg P)"
  "unary_ops P Not = None" "unary_ops P Invert = None"
  by (simp_all add: unary_ops_def)

lemma complex_pow_not_bool: "complex_pow P x y = Inr v \<Longrightarrow> \<not> is_bool v"
  by (auto simp: complex_pow_def split: sum.splits)

lemma float_pow_not_bool: "float_pow P x y = Inr v \<Longrightarrow> \<not> is_bool v"
  by (auto simp: float_pow_def split: if_splits sum.splits dest: complex_pow_not_bool)

lemma arith_not_bool: "arith P op f a b = Inr v \<Longrightarrow> \<not> is_bool v"
  by (auto simp: arith_def split: sum.splits operands.splits)

lemma floor_arith_not_bool: "floor_arith P op f a b = Inr v \<Longrightarrow> \<not> is_bool v"
  by (auto simp: floor_arith_def split: sum.splits operands.splits if_splits)

lemma truediv_not_bool: "operator_truediv P a b = Inr v \<Longrightarrow> \<not> is_bool v"
  by (auto simp: operator_truediv_def split: sum.splits operands.splits if_splits option.splits)

lemma pow_not_bool: "operator_pow P a b = Inr v \<Longrightarrow> \<not> is_bool v"
  by (auto simp: operator_pow_def split: sum.splits operands.splits if_splits
      dest: float_pow_not_bool complex_pow_not_bool)

lemma binop_not_bool:
  assumes "ops P op = Some f" "f a b = Inr v"
  shows "\<not> is_bool v"
  using assms
  by (cases op)
    (auto simp: ops_simps operator_add_def operator_sub_def operator_mul_def
      operator_floordiv_def operator_mod_def
      dest: arith_not_bool floor_arith_not_bool truediv_not_bool pow_not_bool)

lemma pos_not_bool: "operator_pos P a = Inr v \<Longrightarrow> \<not> is_bool v"
  by (cases a) auto

lemma neg_not_bool: "operator_neg P a = Inr v \<Longrightarrow> \<not> is_bool v"
  by (cases a) auto

lemma well_formed_not_bool: "well_formed e \<Longrightarrow> eval_node P e = Inr v \<Longrightarrow> \<not> is_bool v"
proof (induction e arbitrary: v)
  case (BinOp l op r)
  then show ?case
    by (auto split: option.splits sum.splits dest: binop_not_bool)
next
  case (UnaryOp op e)
  then show ?case
    by (auto simp: unary_ops_simps split: sum.splits dest: pos_not_bool neg_not_bool)
next
  case (Constant c)
  then show ?case by (cases c) auto
qed auto

lemma pos_id: "\<not> is_bool v \<Longrightarrow> operator_pos P v = Inr v"
  by (cases v) auto

lemma strip_all_space: "\<forall>c\<in>set s. isspace c \<Longrightarrow> strip s = []"
proof -
  assume "\<forall>c\<in>set s. isspace c"
  then have "dropWhile isspace s = []" by (induction s) auto
  then have "strip s = rev (dropWhile isspace (rev []))"
    unfolding strip_def by (rule arg_cong)
  then show ?thesis by simp
qed

lemma strip_no_space: "s \<noteq> [] \<Longrightarrow> \<not> isspace (hd s) \<Longrightarrow> \<not> isspace (last s) \<Longrightarrow> strip s = s"
proof -
  assume ne: "s \<noteq> []" and h: "\<not> isspace (hd s)" and l: "\<not> isspace (last s)"
  from ne h have a: "dropWhile isspace s = s"
    by (cases s) auto
  from ne l have "dropWhile isspace (rev s) = rev s"
    by (cases "rev s") (auto simp: last_rev [symmetric] hd_rev)
  with a show ?thesis by (simp add: strip_def)
qed

lemma ideal_fields:
  "ast_parse ideal_python = example_parse" "has_Num ideal_python = True"
  "max_str_digits ideal_python = 4300"
  by (simp_all add: ideal_python_def)

lemma rejected_nodes:
  "eval_node P (Name x) = Inl unsupported"
  "eval_node P (Attribute n x) = Inl unsupported"
  "eval_node P (Call n args) = Inl unsupported"
  "eval_node P (Other k) = Inl unsupported"
  "eval_node P (Constant (CStr x)) = Inl unsupported"
  "eval_node P (Constant (CBytes x)) = Inl unsupported"
  "eval_node P (Constant CNone) = Inl unsupported"
  "eval_node P (Constant CEllipsis) = Inl unsupported"
  "op \<notin> {Add, Sub, Mult, Div, FloorDiv, Mod, Pow} \<Longrightarrow> eval_node P (BinOp l op r) = Inl unsupported"
  "uop \<notin> {UAdd, USub} \<Longrightarrow> eval_node P (UnaryOp uop e) = Inl unsupported"
  by (cases op; cases uop; simp add: ops_simps unary_ops_simps)+

lemma only_accepted_evaluate: "eval_node P n = Inr v \<Longrightarrow> accepted P n"
proof (induction n arbitrary: v)
  case (BinOp l op r)
  then show ?case
    by (cases op) (auto simp: ops_simps split: sum.splits)
next
  case (UnaryOp op e)
  then show ?case
    by (cases op) (auto simp: unary_ops_simps split: sum.splits)
next
  case (Constant c)
  then show ?case by (auto split: if_splits)
qed auto

lemma spec_examples_rejected:
  "safe_eval ideal_python ''a + 1'' = Inl unsupported"
  "safe_eval ideal_python ''__import__('os').system('ls')'' = Inl unsupported"
  by (simp_all add: safe_eval_def strip_def isspace_def ideal_fields example_parse_def ops_simps)

lemma coerce_real_zero:
  assumes "zero_divisor P b" and "\<not> is_complex a"
    and "is_float b \<longrightarrow> (\<exists>x. as_float P a = Inr x)"
    and "\<exists>z. int_to_float P 0 = Some z \<and> f_is_zero P z"
  shows "(\<exists>x. coerce P a b = Inr (Ints x 0)) \<or> (\<exists>x y. coerce P a b = Inr (Floats x y) \<and> f_is_zero P y)"
  using assms
  by (cases a; cases b) (auto simp: both_floats_def float_of_int_def bool_int_def)

lemma digits_length: "10 ^ k \<le> n \<Longrightarrow> k < length (digits n)"
proof (induction k arbitrary: n)
  case 0
  show ?case by (subst digits.simps) simp
next
  case (Suc k)
  have a: "(10::nat) \<le> 10 * 10 ^ k"
    by simp
  have b: "10 * 10 ^ k \<le> n"
    using Suc.prems by simp
  from a b have big: "10 \<le> n"
    by (rule le_trans)
  from Suc.prems have "10 ^ k \<le> n div 10"
    by (simp add: less_eq_div_iff_mult_less_eq mult.commute)
  then have "k < length (digits (n div 10))"
    by (rule Suc.IH)
  with big show ?case
    by (subst digits.simps) simp
qed


lemma safe_eval_empty: "isl (ast_parse P []) \<Longrightarrow> isl (safe_eval P [])"
  by (auto simp: safe_eval_def strip_def split: sum.splits)

lemma eval_pow_consts:
  "0 \<le> e \<Longrightarrow> eval_node P (BinOp (Constant (CInt b)) Pow (Constant (CInt e))) = Inr (VInt (b ^ nat e))"
  by (simp add: ops_simps operator_pow_def)

lemma str_limit:
  "0 < max_str_digits P \<Longrightarrow> 10 ^ max_str_digits P \<le> nat \<bar>n\<bar> \<Longrightarrow>
   py_str P (VInt n) = Inl str_limit_error"
  by (simp add: digits_length)

lemma nat_abs_power10: "nat \<bar>(10::int) ^ k\<bar> = 10 ^ k"
  by (simp add: nat_power_eq)

lemma eval_node_st_pure:
  "dictionaries_intact P w \<Longrightarrow> eval_node_st P w n = (eval_node P n, w)"
proof (induction n)
  case (BinOp l op r)
  then show ?case
    by (auto simp: dictionaries_intact_def split: option.splits sum.splits)
next
  case (UnaryOp op e)
  then show ?case
    by (auto simp: dictionaries_intact_def split: option.splits sum.splits)
qed auto

lemma safe_eval_st_pure:
  "dictionaries_intact P w \<Longrightarrow> safe_eval_st P w s = (safe_eval P s, w)"
  by (simp add: safe_eval_st_def safe_eval_def Let_def eval_node_st_pure split: sum.splits)

lemma try_store_st_pure:
  "dictionaries_intact P w \<Longrightarrow>
   try_store_st P now e w =
     (case try_store P now e (db w) of
        Inl err \<Rightarrow> (Inl err, w)
      | Inr (calc, st') \<Rightarrow> (Inr calc, w\<lparr>db := st'\<rparr>))"
  by (simp add: try_store_st_def try_store_def safe_eval_st_pure split: sum.splits prod.splits)

lemma calculate_st_pure:
  "dictionaries_intact P w \<Longrightarrow>
   calculate_st P now form w =
     (fst (calculate P now form (db w)), w\<lparr>db := snd (calculate P now form (db w))\<rparr>)"
  by (simp add: calculate_st_def calculate_def try_store_st_pure Let_def
      split: sum.splits prod.splits)

lemma api_calc_st_pure:
  "dictionaries_intact P w \<Longrightarrow>
   api_calc_st P now args w =
     (fst (api_calc P now args (db w)), w\<lparr>db := snd (api_calc P now args (db w))\<rparr>)"
  by (simp add: api_calc_st_def api_calc_def try_store_st_pure Let_def
      split: sum.splits prod.splits)

lemma handle_intact: "dictionaries_intact P w \<Longrightarrow> dictionaries_intact P (handle P r w)"
  by (cases r) (simp_all add: calculate_st_pure api_calc_st_pure, simp_all add: dictionaries_intact_def)

lemma serve_intact: "dictionaries_intact P w \<Longrightarrow> dictionaries_intact P (serve P rs w)"
  by (induction rs arbitrary: w) (simp_all add: handle_intact)

lemma loaded_intact: "dictionaries_intact P (module_loaded P st)"
  by (simp add: dictionaries_intact_def module_loaded_def)

subsection \<open>Unary operators\<close>

text \<open>
  Claim C7. For every well-formed arithmetic subexpression \<open>e\<close>, a unary plus node
  evaluates to exactly what \<open>e\<close> evaluates to (the same value or the same exception), and
  a unary minus node evaluates to the arithmetic negation of the value of \<open>e\<close>: the
  negated integer, the negated double or the negated complex number; an exception of
  \<open>e\<close> is passed on.
\<close>

theorem C7_unary_ops:
  assumes "well_formed e"
  shows "eval_node P (UnaryOp UAdd e) = eval_node P e \<and>
         eval_node P (UnaryOp USub e) =
           (case eval_node P e of
              Inl err \<Rightarrow> Inl err
            | Inr (VBool b) \<Rightarrow> Inr (VInt (- bool_int b))
            | Inr (VInt n) \<Rightarrow> Inr (VInt (- n))
            | Inr (VFloat x) \<Rightarrow> Inr (VFloat (f_neg P x))
            | Inr (VComplex z) \<Rightarrow> Inr (VComplex (c_neg P z)))"
proof
  show "eval_node P (UnaryOp UAdd e) = eval_node P e"
  proof (cases "eval_node P e")
    case (Inl err)
    then show ?thesis by (simp add: unary_ops_simps)
  next
    case (Inr v)
    with assms have "\<not> is_bool v" by (rule well_formed_not_bool)
    with Inr show ?thesis by (simp add: unary_ops_simps pos_id)
  qed
  show "eval_node P (UnaryOp USub e) =
           (case eval_node P e of
              Inl err \<Rightarrow> Inl err
            | Inr (VBool b) \<Rightarrow> Inr (VInt (- bool_int b))
            | Inr (VInt n) \<Rightarrow> Inr (VInt (- n))
            | Inr (VFloat x) \<Rightarrow> Inr (VFloat (f_neg P x))
            | Inr (VComplex z) \<Rightarrow> Inr (VComplex (c_neg P z)))"
    by (simp add: unary_ops_simps split: sum.splits pyval.splits)
qed

theorem C7_unary_ops_witness:
  "well_formed (BinOp (Constant (CInt 2)) Add (Constant (CInt 3)) :: (real, complex) node) \<and>
   eval_node ideal_python (UnaryOp UAdd (BinOp (Constant (CInt 2)) Add (Constant (CInt 3)))) =
     Inr (VInt 5) \<and>
   eval_node ideal_python (UnaryOp USub (BinOp (Constant (CInt 2)) Add (Constant (CInt 3)))) =
     Inr (VInt (- 5))"
proof -
  have wf: "well_formed (BinOp (Constant (CInt 2)) Add (Constant (CInt 3)) :: (real, complex) node)"
    by simp
  have ev: "eval_node ideal_python (BinOp (Constant (CInt 2)) Add (Constant (CInt 3))) = Inr (VInt 5)"
    by (simp add: ops_simps operator_add_def arith_def)
  from C7_unary_ops [OF wf, of ideal_python] wf ev show ?thesis
    by simp
qed

subsection \<open>Modulo and floor division on integers\<close>

text \<open>
  Claim C6. When the operands of \<open>%\<close> evaluate to integers \<open>a\<close> and \<open>b\<close> with \<open>b\<close>
  non-zero, the evaluator returns an integer \<open>m\<close> that is zero or has the sign of
  \<open>b\<close>, is smaller than \<open>b\<close> in absolute value, and satisfies \<open>a = q * b + m\<close> for the
  integer \<open>q\<close> that the evaluator returns for \<open>//\<close> on the same operands.
\<close>

theorem C6_floor_mod:
  assumes "eval_node P l = Inr (VInt a)" and "eval_node P r = Inr (VInt b)" and "b \<noteq> 0"
  shows "\<exists>m q. eval_node P (BinOp l Mod r) = Inr (VInt m) \<and>
               eval_node P (BinOp l FloorDiv r) = Inr (VInt q) \<and>
               (m = 0 \<or> (m < 0 \<longleftrightarrow> b < 0)) \<and> \<bar>m\<bar> < \<bar>b\<bar> \<and> a = q * b + m"
proof (intro exI conjI)
  show "eval_node P (BinOp l Mod r) = Inr (VInt (a mod b))"
    using assms by (simp add: ops_simps operator_mod_def floor_arith_def)
  show "eval_node P (BinOp l FloorDiv r) = Inr (VInt (a div b))"
    using assms by (simp add: ops_simps operator_floordiv_def floor_arith_def)
  show "a mod b = 0 \<or> (a mod b < 0 \<longleftrightarrow> b < 0)"
  proof (cases "0 < b")
    case True
    then have "0 \<le> a mod b" by simp
    with True show ?thesis by linarith
  next
    case False
    with assms(3) have neg: "b < 0" by simp
    then have "a mod b \<le> 0" by simp
    with neg show ?thesis by linarith
  qed
  show "\<bar>a mod b\<bar> < \<bar>b\<bar>"
    using assms(3) by (simp add: abs_mod_less)
  show "a = a div b * b + a mod b"
    by simp
qed


theorem C6_floor_mod_witness:
  "eval_node ideal_python (UnaryOp USub (Constant (CInt 7))) = Inr (VInt (- 7)) \<and>
   eval_node ideal_python (Constant (CInt 2)) = Inr (VInt 2) \<and> (2::int) \<noteq> 0 \<and>
   (\<exists>m q. eval_node ideal_python (BinOp (UnaryOp USub (Constant (CInt 7))) Mod (Constant (CInt 2)))
             = Inr (VInt m) \<and>
          eval_node ideal_python (BinOp (UnaryOp USub (Constant (CInt 7))) FloorDiv (Constant (CInt 2)))
             = Inr (VInt q) \<and>
          (m = 0 \<or> (m < 0 \<longleftrightarrow> (2::int) < 0)) \<and> \<bar>m\<bar> < \<bar>2::int\<bar> \<and> - 7 = q * 2 + m)"
proof -
  have l: "eval_node ideal_python (UnaryOp USub (Constant (CInt 7))) = Inr (VInt (- 7))"
    by (simp add: unary_ops_simps)
  have r: "eval_node ideal_python (Constant (CInt 2)) = Inr (VInt 2)"
    by simp
  have nz: "(2::int) \<noteq> 0"
    by simp
  from C6_floor_mod [OF l r nz] l r nz show ?thesis
    by blast
qed

subsection \<open>The examples of the specification\<close>

text \<open>
  Claim C3. On the six example texts the evaluator returns 5, 14, 20, 1024, 3 and 1, on
  every interpreter whose parser returns for them the trees of Python's grammar (in which
  \<open>*\<close> binds tighter than \<open>+\<close> and parentheses group). The evaluator itself adds no
  precedence: it follows the tree.
\<close>

theorem C3_examples:
  assumes "ast_parse P ''2 + 3'' = Inr (BinOp (Constant (CInt 2)) Add (Constant (CInt 3)))"
    and "ast_parse P ''2 + 3 * 4'' =
       Inr (BinOp (Constant (CInt 2)) Add (BinOp (Constant (CInt 3)) Mult (Constant (CInt 4))))"
    and "ast_parse P ''(2 + 3) * 4'' =
       Inr (BinOp (BinOp (Constant (CInt 2)) Add (Constant (CInt 3))) Mult (Constant (CInt 4)))"
    and "ast_parse P ''2 ** 10'' = Inr (BinOp (Constant (CInt 2)) Pow (Constant (CInt 10)))"
    and "ast_parse P ''7 // 2'' = Inr (BinOp (Constant (CInt 7)) FloorDiv (Constant (CInt 2)))"
    and "ast_parse P ''7 % 2'' = Inr (BinOp (Constant (CInt 7)) Mod (Constant (CInt 2)))"
  shows "safe_eval P ''2 + 3'' = Inr (VInt 5) \<and>
         safe_eval P ''2 + 3 * 4'' = Inr (VInt 14) \<and>
         safe_eval P ''(2 + 3) * 4'' = Inr (VInt 20) \<and>
         safe_eval P ''2 ** 10'' = Inr (VInt 1024) \<and>
         safe_eval P ''7 // 2'' = Inr (VInt 3) \<and>
         safe_eval P ''7 % 2'' = Inr (VInt 1)"
  using assms
  by (simp add: safe_eval_def strip_def isspace_def ops_simps operator_add_def operator_mul_def
      operator_pow_def operator_floordiv_def operator_mod_def arith_def floor_arith_def)

theorem C3_examples_witness:
  "safe_eval ideal_python ''2 + 3'' = Inr (VInt 5) \<and>
   safe_eval ideal_python ''2 + 3 * 4'' = Inr (VInt 14) \<and>
   safe_eval ideal_python ''(2 + 3) * 4'' = Inr (VInt 20) \<and>
   safe_eval ideal_python ''2 ** 10'' = Inr (VInt 1024) \<and>
   safe_eval ideal_python ''7 // 2'' = Inr (VInt 3) \<and>
   safe_eval ideal_python ''7 % 2'' = Inr (VInt 1)"
  by (rule C3_examples) (simp_all add: ideal_fields example_parse_def)

subsection \<open>The length limit\<close>

text \<open>
  Claim C5. A text whose trimmed length exceeds 100 characters is answered with the
  ``Expression too long'' error whatever it contains; a text of trimmed length at most
  100 passes the length test, and its result is that of parsing and evaluating the
  trimmed text.
\<close>

theorem C5_length_limit:
  "(100 < length (strip s) \<longrightarrow> safe_eval P s = Inl too_long) \<and>
   (length (strip s) \<le> 100 \<longrightarrow>
      safe_eval P s = (case ast_parse P (strip s) of Inl e \<Rightarrow> Inl e | Inr body \<Rightarrow> eval_node P body))"
  by (simp add: safe_eval_def Let_def)

theorem C5_length_limit_witness:
  "100 < length (strip (replicate 101 (CHR ''1''))) \<and>
   safe_eval ideal_python (replicate 101 (CHR ''1'')) = Inl too_long \<and>
   length (strip ''2 + 3'') \<le> 100 \<and>
   safe_eval ideal_python ''2 + 3'' = Inr (VInt 5)"
proof -
  have s: "strip (replicate 101 (CHR ''1'')) = replicate 101 (CHR ''1'')"
    by (rule strip_no_space) (simp_all add: isspace_def)
  have long: "100 < length (strip (replicate 101 (CHR ''1'')))"
    by (simp add: s)
  have t: "strip ''2 + 3'' = ''2 + 3''"
    by (simp add: strip_def isspace_def)
  have short: "length (strip ''2 + 3'') \<le> 100"
    by (simp add: t)
  have ev: "(case ast_parse ideal_python (strip ''2 + 3'') of Inl e \<Rightarrow> Inl e
             | Inr body \<Rightarrow> eval_node ideal_python body) = Inr (VInt 5)"
    by (simp add: t ideal_fields example_parse_def ops_simps operator_add_def arith_def)
  from C5_length_limit [of "replicate 101 (CHR ''1'')" ideal_python] C5_length_limit [of "''2 + 3''" ideal_python]
    long short ev
  show ?thesis by simp
qed

subsection \<open>Blank input\<close>

text \<open>
  Claim C10. The empty text and every text of white space only are answered with the
  parser's syntax error: trimming leaves the empty text, which Python's parser rejects
  (the hypothesis on the parser), and nothing is evaluated.
\<close>

theorem C10_blank_input:
  assumes "ast_parse P [] = Inl SyntaxError" and "\<forall>c\<in>set s. isspace c"
  shows "safe_eval P s = Inl SyntaxError"
  using assms by (simp add: safe_eval_def strip_all_space)

theorem C10_blank_input_witness:
  "ast_parse ideal_python [] = Inl SyntaxError \<and>
   isspace (CHR '' '') \<and> isspace (CHR 0x09) \<and>
   safe_eval ideal_python [] = Inl SyntaxError \<and>
   safe_eval ideal_python [CHR '' '', CHR 0x09, CHR '' ''] = Inl SyntaxError"
proof -
  have p: "ast_parse ideal_python [] = Inl SyntaxError"
    by (simp add: ideal_fields example_parse_def)
  have w: "\<forall>c\<in>set [CHR '' '', CHR 0x09, CHR '' '']. isspace c"
    by (simp add: isspace_def)
  have e: "\<forall>c\<in>set ([] :: string). isspace c"
    by simp
  have i: "isspace (CHR '' '')" "isspace (CHR 0x09)"
    by (simp_all add: isspace_def)
  from C10_blank_input [OF p w] C10_blank_input [OF p e] p i show ?thesis
    by simp
qed


subsection \<open>Determinism\<close>

text \<open>
  Claim C9. In every state that the application reaches from the loaded module by
  serving any list of requests, whatever the table held at the start, a call of the
  evaluator on a text \<open>s\<close> returns \<open>safe_eval P s\<close>, a function of the text alone, and
  leaves the state exactly as it found it. Hence two calls on the same text, in the same
  or in any two reachable states, return the same value or the same exception: the rows
  and messages that accumulate do not reach the evaluator, and neither the evaluator nor
  a handler assigns to the dictionaries it reads.
\<close>

theorem C9_deterministic:
  "safe_eval_st P (serve P reqs (module_loaded P st)) s =
     (safe_eval P s, serve P reqs (module_loaded P st)) \<and>
   fst (safe_eval_st P (serve P reqs (module_loaded P st)) s) =
     fst (safe_eval_st P (serve P reqs' (module_loaded P st')) s)"
  by (simp add: safe_eval_st_pure serve_intact loaded_intact)


theorem C9_deterministic_witness:
  "rows (db (serve ideal_python [PostCalculate 7 (Some ''2 + 3'')]
       (module_loaded ideal_python \<lparr>rows = [], flashes = []\<rparr>))) =
     [\<lparr>cid = 1, expression = ''2 + 3'', result = ''5'', created_at = 7\<rparr>] \<and>
   fst (safe_eval_st ideal_python
       (serve ideal_python [PostCalculate 7 (Some ''2 + 3'')]
          (module_loaded ideal_python \<lparr>rows = [], flashes = []\<rparr>)) ''2 + 3'') = Inr (VInt 5) \<and>
   fst (safe_eval_st ideal_python
       (serve ideal_python [] (module_loaded ideal_python \<lparr>rows = [], flashes = []\<rparr>))
       ''2 + 3'') = Inr (VInt 5)"
proof -
  have ev: "safe_eval ideal_python ''2 + 3'' = Inr (VInt 5)"
    by (simp add: safe_eval_def strip_def isspace_def ideal_fields example_parse_def ops_simps
        operator_add_def arith_def)
  have g: "get_param (Some ''2 + 3'') = ''2 + 3''"
    by (simp add: get_param_def strip_def isspace_def)
  have d: "digits 5 = ''5''"
    by (subst digits.simps) simp
  have c: "snd (calculate ideal_python 7 (Some ''2 + 3'') \<lparr>rows = [], flashes = []\<rparr>) =
           \<lparr>rows = [\<lparr>cid = 1, expression = ''2 + 3'', result = ''5'', created_at = 7\<rparr>],
            flashes = []\<rparr>"
    by (simp add: calculate_def g try_store_def ev d str_int_def next_id_def ideal_fields
        add_commit_def Let_def)
  have r: "rows (db (serve ideal_python [PostCalculate 7 (Some ''2 + 3'')]
       (module_loaded ideal_python \<lparr>rows = [], flashes = []\<rparr>))) =
     [\<lparr>cid = 1, expression = ''2 + 3'', result = ''5'', created_at = 7\<rparr>]"
    by (simp add: calculate_st_pure loaded_intact) (simp add: module_loaded_def c)
  note t = C9_deterministic [of ideal_python "[PostCalculate 7 (Some ''2 + 3'')]" "\<lparr>rows = [], flashes = []\<rparr>"
      "''2 + 3''" "[]" "\<lparr>rows = [], flashes = []\<rparr>"]
  from t [THEN conjunct1] have a: "fst (safe_eval_st ideal_python
       (serve ideal_python [PostCalculate 7 (Some ''2 + 3'')]
          (module_loaded ideal_python \<lparr>rows = [], flashes = []\<rparr>)) ''2 + 3'') = Inr (VInt 5)"
    by (simp only: ev fst_conv)
  from t [THEN conjunct2] a have b: "fst (safe_eval_st ideal_python
       (serve ideal_python [] (module_loaded ideal_python \<lparr>rows = [], flashes = []\<rparr>))
       ''2 + 3'') = Inr (VInt 5)"
    by (simp only:)
  from r a b show ?thesis
    by (intro conjI)
qed

subsection \<open>Syntax outside the arithmetic subset\<close>

text \<open>
  Claim C1. The claim says that every text outside the arithmetic subset, boolean
  literals included, is answered with an error. Names, attribute access, calls, string,
  bytes, \<open>None\<close> and \<open>...\<close> constants, the other node classes and the operators that
  are not in the two dictionaries are indeed rejected wherever they stand in the tree
  (\<open>rejected_nodes\<close>, \<open>only_accepted_evaluate\<close>), and so are the two texts of the
  specification (\<open>spec_examples_rejected\<close>). A boolean literal is
  not: \<open>isinstance(True, (int, float))\<close> holds in Python, so on the text \<open>True\<close>,
  which the parser turns into a constant node with the value \<open>True\<close>, the evaluator
  returns \<open>True\<close> instead of raising. (An imaginary literal such as \<open>1j\<close> is a number
  literal and is accepted too, by the test on \<open>ast.Num\<close>, where that class exists.)
\<close>

theorem C1_boolean_literal_accepted:
  assumes "ast_parse P ''True'' = Inr (Constant (CBool True))"
  shows "safe_eval P ''True'' = Inr (VBool True)"
  using assms by (simp add: safe_eval_def strip_def isspace_def)

theorem C1_boolean_literal_accepted_witness:
  "ast_parse ideal_python ''True'' = Inr (Constant (CBool True)) \<and>
   safe_eval ideal_python ''True'' = Inr (VBool True)"
proof -
  have p: "ast_parse ideal_python ''True'' = Inr (Constant (CBool True))"
    by (simp add: ideal_fields example_parse_def)
  from C1_boolean_literal_accepted [OF p] p show ?thesis by simp
qed

subsection \<open>Division by zero\<close>

text \<open>
  Claim C2, amended. For \<open>/\<close>, \<open>//\<close> and \<open>%\<close>: when the left operand evaluates to an
  integer, a boolean or a float, the right operand evaluates to a zero of one of these
  types, and (for a float divisor) the left operand converts to a float, the evaluator
  raises \<open>ZeroDivisionError\<close>. The interpreter is assumed to convert the integer 0 to a
  float zero. In particular \<open>1 / 0\<close> raises \<open>ZeroDivisionError\<close>.
\<close>

theorem C2_division_by_zero:
  assumes "op \<in> {Div, FloorDiv, Mod}"
    and "eval_node P l = Inr a" and "eval_node P r = Inr b"
    and "zero_divisor P b" and "\<not> is_complex a"
    and "is_float b \<longrightarrow> (\<exists>x. as_float P a = Inr x)"
    and "\<exists>z. int_to_float P 0 = Some z \<and> f_is_zero P z"
  shows "eval_node P (BinOp l op r) = Inl ZeroDivisionError"
proof -
  have nc: "\<not> is_complex b"
    using assms(4) by (cases b) auto
  from coerce_real_zero [OF assms(4-7)]
  have "operator_truediv P a b = Inl ZeroDivisionError"
    and "floor_arith P op' f a b = Inl ZeroDivisionError" for op' f
    using assms(5) nc by (auto simp: operator_truediv_def floor_arith_def)
  with assms(1-3) show ?thesis
    by (auto simp: ops_simps operator_floordiv_def operator_mod_def)
qed

theorem C2_division_by_zero_witness:
  "eval_node ideal_python (Constant (CInt 1)) = Inr (VInt 1) \<and>
   eval_node ideal_python (Constant (CInt 0)) = Inr (VInt 0) \<and>
   zero_divisor ideal_python (VInt 0) \<and> \<not> is_complex (VInt 1 :: (real, complex) pyval) \<and>
   (\<exists>z. int_to_float ideal_python 0 = Some z \<and> f_is_zero ideal_python z) \<and>
   eval_node ideal_python (BinOp (Constant (CInt 1)) Div (Constant (CInt 0))) = Inl ZeroDivisionError \<and>
   safe_eval ideal_python ''1 / 0'' = Inl ZeroDivisionError"
proof -
  have o: "Div \<in> {Div, FloorDiv, Mod}" by simp
  have l: "eval_node ideal_python (Constant (CInt 1)) = Inr (VInt 1)" by simp
  have r: "eval_node ideal_python (Constant (CInt 0)) = Inr (VInt 0)" by simp
  have z: "zero_divisor ideal_python (VInt 0)" by simp
  have c: "\<not> is_complex (VInt 1 :: (real, complex) pyval)" by simp
  have f: "is_float (VInt 0 :: (real, complex) pyval) \<longrightarrow>
           (\<exists>x. as_float ideal_python (VInt 1) = Inr x)" by simp
  have i: "\<exists>z. int_to_float ideal_python 0 = Some z \<and> f_is_zero ideal_python z"
    by (simp add: ideal_python_def)
  have p: "safe_eval ideal_python ''1 / 0'' =
           eval_node ideal_python (BinOp (Constant (CInt 1)) Div (Constant (CInt 0)))"
    by (simp add: safe_eval_def strip_def isspace_def ideal_fields example_parse_def)
  from C2_division_by_zero [OF o l r z c f i] l r z c i p show ?thesis
    by simp
qed

text \<open>
  The claim as stated, for every expression whose right operand evaluates to zero, fails
  where the left operand raises first: in \<open>a / 0\<close> the name is rejected before the
  division is reached, and in \<open>10 ** 400 / 0.0\<close> the conversion of the left operand to
  a float overflows before the divisor is tested.
\<close>

theorem C2_other_exception_counterexample:
  "eval_node ideal_python (Constant (CInt 0)) = Inr (VInt 0) \<and>
   safe_eval ideal_python ''a / 0'' = Inl unsupported \<and>
   safe_eval ideal_python ''a / 0'' \<noteq> Inl ZeroDivisionError \<and>
   eval_node ideal_python (Constant (CFloat 0)) = Inr (VFloat 0) \<and>
   f_is_zero ideal_python 0 \<and>
   safe_eval ideal_python ''10 ** 400 / 0.0'' = Inl OverflowError"
  by (simp add: safe_eval_def strip_def isspace_def ideal_fields example_parse_def ops_simps
      unsupported_def operator_truediv_def operator_pow_def both_floats_def float_of_int_def
      ideal_python_def)


subsection \<open>A negative base with a fractional exponent\<close>

text \<open>
  Claim C4, amended. When the base of \<open>**\<close> evaluates to a negative finite number
  (an integer or boolean that converts to a double, or a float) and the exponent to a
  finite float that is not a whole number, the evaluator returns what Python's complex
  power returns on the two operands: a complex number, or the exception of the complex
  power. No domain error is raised.
\<close>

theorem C4_negative_base_power:
  assumes "eval_node P l = Inr a" and "eval_node P r = Inr (VFloat y)"
    and "as_float P a = Inr x"
    and "f_is_neg P x" and "\<not> f_is_whole P y"
    and "\<not> f_is_zero P x" and "\<not> f_is_nan P x" and "\<not> f_is_inf P x"
    and "\<not> f_is_zero P y" and "\<not> f_is_nan P y" and "\<not> f_is_inf P y"
  shows "eval_node P (BinOp l Pow r) =
           (case c_pow P (to_complex P x) (to_complex P y) of
              Inl e \<Rightarrow> Inl e
            | Inr z \<Rightarrow> Inr (VComplex z))"
proof -
  from assms(3) have "coerce P a (VFloat y) = Inr (Floats x y)"
    by (cases a) (auto simp: both_floats_def)
  with assms show ?thesis
    by (simp add: ops_simps operator_pow_def float_pow_def complex_pow_def)
qed


theorem C4_negative_base_power_witness:
  "eval_node ideal_python (UnaryOp USub (Constant (CInt 8))) = Inr (VInt (- 8)) \<and>
   eval_node ideal_python (Constant (CFloat (1 / 2))) = Inr (VFloat (1 / 2)) \<and>
   as_float ideal_python (VInt (- 8)) = Inr (- 8) \<and>
   f_is_neg ideal_python (- 8) \<and> \<not> f_is_whole ideal_python (1 / 2) \<and>
   eval_node ideal_python (BinOp (UnaryOp USub (Constant (CInt 8))) Pow (Constant (CFloat (1 / 2)))) =
     (case c_pow ideal_python (to_complex ideal_python (- 8)) (to_complex ideal_python (1 / 2)) of
        Inl e \<Rightarrow> Inl e
      | Inr z \<Rightarrow> Inr (VComplex z))"
proof -
  have l: "eval_node ideal_python (UnaryOp USub (Constant (CInt 8))) = Inr (VInt (- 8))"
    by (simp add: unary_ops_simps)
  have r: "eval_node ideal_python (Constant (CFloat (1 / 2))) = Inr (VFloat (1 / 2))"
    by simp
  have c: "as_float ideal_python (VInt (- 8)) = Inr (- 8)"
    by (simp add: float_of_int_def ideal_python_def)
  have n: "f_is_neg ideal_python (- 8)"
    by (simp add: ideal_python_def)
  have w: "\<not> f_is_whole ideal_python (1 / 2)"
    by (simp add: ideal_python_def)
  have z: "\<not> f_is_zero ideal_python (- 8)" "\<not> f_is_nan ideal_python (- 8)"
    "\<not> f_is_inf ideal_python (- 8)" "\<not> f_is_zero ideal_python (1 / 2)"
    "\<not> f_is_nan ideal_python (1 / 2)" "\<not> f_is_inf ideal_python (1 / 2)"
    by (simp_all add: ideal_python_def)
  from C4_negative_base_power [OF l r c n w z] l r c n w show ?thesis
    by simp
qed

text \<open>
  The claim as stated, that such a power fails, is false at \<open>(-8) ** 0.5\<close>: the
  evaluator returns a value.
\<close>

theorem C4_complex_value_counterexample:
  "eval_node ideal_python (UnaryOp USub (Constant (CInt 8))) = Inr (VInt (- 8)) \<and>
   eval_node ideal_python (Constant (CFloat (1 / 2))) = Inr (VFloat (1 / 2)) \<and>
   \<not> f_is_whole ideal_python (1 / 2) \<and>
   \<not> isl (safe_eval ideal_python ''(-8) ** 0.5'')"
  by (simp add: safe_eval_def strip_def isspace_def ideal_fields example_parse_def ops_simps
      unary_ops_simps operator_pow_def both_floats_def float_of_int_def float_pow_def
      complex_pow_def ideal_c_pow_def ideal_python_def)

subsection \<open>Persistence\<close>

text \<open>
  Claim C8, amended. In both handlers, the rows after the request are \<open>stored\<close>: a
  row with the trimmed expression and \<open>str\<close> of the result is added if and only if the
  evaluation succeeds and \<open>str(result)\<close> succeeds; when the evaluation fails with any
  error the rows are unchanged. The parser is assumed to reject the empty text, which the
  handlers do not evaluate.
\<close>

theorem C8_persisted_rows:
  assumes "isl (ast_parse P [])"
  shows "rows (snd (calculate P now param st)) = stored P now param st \<and>
         rows (snd (api_calc P now param st)) = stored P now param st"
proof (cases "get_param param = []")
  case True
  with safe_eval_empty [OF assms] show ?thesis
    by (auto simp: calculate_def api_calc_def stored_def do_flash_def split: sum.splits)
next
  case False
  then show ?thesis
    by (auto simp: calculate_def api_calc_def stored_def try_store_def add_commit_def Let_def
        do_flash_def split: sum.splits)
qed

theorem C8_persisted_rows_witness:
  "isl (ast_parse ideal_python []) \<and>
   rows (snd (calculate ideal_python 7 (Some ''2 + 3'') \<lparr>rows = [], flashes = []\<rparr>)) =
     [\<lparr>cid = 1, expression = ''2 + 3'', result = ''5'', created_at = 7\<rparr>] \<and>
   rows (snd (api_calc ideal_python 7 (Some ''1 / 0'') \<lparr>rows = [], flashes = []\<rparr>)) = []"
proof -
  have p: "isl (ast_parse ideal_python [])"
    by (simp add: ideal_fields example_parse_def)
  have g: "get_param (Some ''2 + 3'') = ''2 + 3''" "get_param (Some ''1 / 0'') = ''1 / 0''"
    by (simp_all add: get_param_def strip_def isspace_def)
  have e1: "safe_eval ideal_python ''2 + 3'' = Inr (VInt 5)"
    by (simp add: safe_eval_def strip_def isspace_def ideal_fields example_parse_def ops_simps
        operator_add_def arith_def)
  have e2: "safe_eval ideal_python ''1 / 0'' = Inl ZeroDivisionError"
    by (simp add: safe_eval_def strip_def isspace_def ideal_fields example_parse_def ops_simps
        operator_truediv_def)
  have d: "digits 5 = ''5''"
    by (subst digits.simps) simp
  have s1: "stored ideal_python 7 (Some ''2 + 3'') \<lparr>rows = [], flashes = []\<rparr> =
            [\<lparr>cid = 1, expression = ''2 + 3'', result = ''5'', created_at = 7\<rparr>]"
    by (simp add: stored_def g e1 d str_int_def next_id_def ideal_fields)
  have s2: "stored ideal_python 7 (Some ''1 / 0'') \<lparr>rows = [], flashes = []\<rparr> = []"
    by (simp add: stored_def g e2)
  from C8_persisted_rows [OF p, of 7 "Some ''2 + 3''" "\<lparr>rows = [], flashes = []\<rparr>"]
    C8_persisted_rows [OF p, of 7 "Some ''1 / 0''" "\<lparr>rows = [], flashes = []\<rparr>"] p s1 s2
  show ?thesis by simp
qed

text \<open>
  The claim as stated, a row if and only if the evaluation succeeds, is false at
  \<open>10**4300\<close> under the default digit limit: the evaluation returns an integer of
  4301 digits, \<open>str\<close> raises inside the \<open>try\<close>, and no row is added.
\<close>

theorem C8_digit_limit_counterexample:
  "\<not> isl (safe_eval ideal_python ''10**4300'') \<and>
   rows (snd (calculate ideal_python 0 (Some ''10**4300'') \<lparr>rows = [], flashes = []\<rparr>)) = [] \<and>
   rows (snd (api_calc ideal_python 0 (Some ''10**4300'') \<lparr>rows = [], flashes = []\<rparr>)) = []"
proof -
  define n :: int where "n = 10 ^ nat 4300"
  have g: "get_param (Some ''10**4300'') = ''10**4300''"
    by (simp add: get_param_def strip_def isspace_def)
  have "safe_eval ideal_python ''10**4300'' =
        eval_node ideal_python (BinOp (Constant (CInt 10)) Pow (Constant (CInt 4300)))"
    by (simp add: safe_eval_def strip_def isspace_def ideal_fields example_parse_def
        del: eval_node.simps)
  also have "\<dots> = Inr (VInt n)"
    unfolding n_def by (rule eval_pow_consts) simp
  finally have ev: "safe_eval ideal_python ''10**4300'' = Inr (VInt n)" .
  have m: "max_str_digits ideal_python = nat 4300"
    by (simp add: ideal_fields)
  have "10 ^ max_str_digits ideal_python \<le> nat \<bar>n\<bar>"
    unfolding n_def m nat_abs_power10 by (rule order_refl)
  moreover have "0 < max_str_digits ideal_python"
    by (simp add: ideal_fields)
  ultimately have st: "py_str ideal_python (VInt n) = Inl str_limit_error"
    by (intro str_limit)
  show ?thesis
    by (simp add: g ev st calculate_def api_calc_def try_store_def do_flash_def
        del: py_str.simps)
qed



end
